theory Spec2Isabelle
  imports Complex_Main
begin

section \<open>Data model of RouteMap.tsx\<close>

text \<open>
  The component \<^verbatim>\<open>RouteMap\<close> of \<^verbatim>\<open>src/frontend/src/components/RouteMap.tsx\<close> keeps four
  pieces of React state (\<^verbatim>\<open>routes\<close>, \<^verbatim>\<open>start\<close>, \<^verbatim>\<open>end\<close>, \<^verbatim>\<open>selectedRouteId\<close>) and has
  three event handlers: a map click (\<^verbatim>\<open>ClickToSetPoints\<close>), the click on a route button
  (\<^verbatim>\<open>setSelectedRouteId(r.id)\<close>) and the "Find Routes" button (\<^verbatim>\<open>fetchRoutes\<close>).
  JavaScript numbers are modelled as \<^typ>\<open>real\<close>: the handlers only store, compare and
  forward them. A point \<^verbatim>\<open>[number, number]\<close> is a pair (latitude, longitude).
  The file holds the component twice; the first copy (lines 1-411), with the \<^verbatim>\<open>try\<close> block
  in \<^verbatim>\<open>fetchRoutes\<close> and the two panels, is the one modelled here. The second copy is an
  earlier state of it with the same click handler and the same \<^verbatim>\<open>FitToRoutes\<close>.
\<close>

type_synonym LatLng = "real \<times> real"

text \<open>The sample type of \<^verbatim>\<open>elevation_profile\<close>; its field \<^verbatim>\<open>i\<close> is called \<open>idx\<close> here.\<close>

record elevation_sample =
  idx :: real
  lat :: real
  lon :: real
  elev_m :: real
  dist_m :: real

record steep_distance =
  gt5 :: real
  gt8 :: real

record elevation_metrics_t =
  ascent_m :: real
  descent_m :: real
  max_slope_percent :: real
  steep_distance_m :: steep_distance

text \<open>
  A \<^verbatim>\<open>Record<string, number>\<close> is an association list: \<^verbatim>\<open>Object.entries\<close> enumerates the
  keys in insertion order.
\<close>

record osm_summary_t =
  steps_count :: real
  surfaces :: "(string \<times> real) list"
  smoothness :: "(string \<times> real) list"
  highway_types :: "(string \<times> real) list"
  kerb_nodes_count :: real
  unknown_surface_ratio :: real
  sample_points_used :: real

text \<open>The type \<^verbatim>\<open>Route\<close>; its field \<^verbatim>\<open>id\<close> is called \<open>route_id\<close> here.\<close>

record Route =
  route_id :: string
  geometry :: "LatLng list"
  distance_m :: real
  duration_s :: real
  elevation_metrics :: elevation_metrics_t
  elevation_profile :: "elevation_sample list"
  osm_summary :: osm_summary_t
  accessibility_score :: real
  flags :: "string list"

text \<open>
  What \<^verbatim>\<open>window.alert\<close> is called with:
  \<^item> \<open>ClickPrompt\<close>: "Click once to set START, then click again to set END."
  \<^item> \<open>BackendError status\<close>: "Backend error <status>. Check console."
  \<^item> \<open>FetchFailed\<close>: "Could not fetch routes (backend down or network error)."
\<close>

datatype alert_msg = ClickPrompt | BackendError nat | FetchFailed

text \<open>The JSON body posted to \<^verbatim>\<open>/routes/compare\<close>.\<close>

record compare_request =
  req_start :: LatLng
  req_end :: LatLng

text \<open>
  The session: the four \<^verbatim>\<open>useState\<close> cells (the cell \<^verbatim>\<open>end\<close> is called \<open>end_pt\<close>),
  and the two effects of the handlers that a user or the backend can observe, as logs
  in the order they happen: the alerts shown and the requests sent.
\<close>

record session =
  routes :: "Route list"
  start :: "LatLng option"
  end_pt :: "LatLng option"
  selectedRouteId :: "string option"
  alerts :: "alert_msg list"
  requests :: "compare_request list"

text \<open>The initial values given to \<^verbatim>\<open>useState\<close>; nothing has been shown or sent.\<close>

definition init :: session where
  "init = \<lparr>routes = [], start = None, end_pt = None, selectedRouteId = None,
            alerts = [], requests = []\<rparr>"

text \<open>The state setters replace one cell.\<close>

definition setRoutes :: "Route list \<Rightarrow> session \<Rightarrow> session" where
  "setRoutes rs s = s\<lparr>routes := rs\<rparr>"

definition setStart :: "LatLng option \<Rightarrow> session \<Rightarrow> session" where
  "setStart p s = s\<lparr>start := p\<rparr>"

definition setEnd :: "LatLng option \<Rightarrow> session \<Rightarrow> session" where
  "setEnd p s = s\<lparr>end_pt := p\<rparr>"

definition setSelectedRouteId :: "string option \<Rightarrow> session \<Rightarrow> session" where
  "setSelectedRouteId v s = s\<lparr>selectedRouteId := v\<rparr>"

definition alert :: "alert_msg \<Rightarrow> session \<Rightarrow> session" where
  "alert m s = s\<lparr>alerts := alerts s @ [m]\<rparr>"

section \<open>ClickToSetPoints\<close>

text \<open>
  The click handler of \<^verbatim>\<open>ClickToSetPoints\<close> (lines 375-387). A point is an array, which
  is truthy, so \<^verbatim>\<open>!props.start\<close> holds exactly when the cell is \<^verbatim>\<open>null\<close>:
  \<^verbatim>\<open>
  if (!props.start) { props.setStart(p); }
  else if (!props.end) { props.setEnd(p); }
  else { props.setStart(p); props.setEnd(null); }
  \<close>
  The handler is registered again after every render, so each click reads the cells as
  the click before it left them.
\<close>

definition click :: "LatLng \<Rightarrow> session \<Rightarrow> session" where
  "click p s =
     (if start s = None then setStart (Some p) s
      else if end_pt s = None then setEnd (Some p) s
      else setEnd None (setStart (Some p) s))"

text \<open>A sequence of clicks, the first of the list first.\<close>

definition clicks :: "LatLng list \<Rightarrow> session \<Rightarrow> session" where
  "clicks ps s = fold click ps s"

text \<open>The end point is set only when the start point is set.\<close>

definition points_ok :: "session \<Rightarrow> bool" where
  "points_ok s = (end_pt s \<noteq> None \<longrightarrow> start s \<noteq> None)"

section \<open>fetchRoutes\<close>

text \<open>
  What the backend's reply can be, as far as \<^verbatim>\<open>fetchRoutes\<close> looks at it. The field
  \<^verbatim>\<open>routes\<close> of the parsed body goes through \<^verbatim>\<open>Array.isArray(data?.routes)\<close>: it is an
  array of routes, or it is anything else (absent, \<^verbatim>\<open>null\<close>, not an array, or the body
  itself is \<^verbatim>\<open>null\<close>).
\<close>

datatype routes_field = NotAnArray | RoutesArray "Route list"

text \<open>
  A response: \<^verbatim>\<open>res.ok\<close>, \<^verbatim>\<open>res.status\<close>, and what the two body readers give. \<open>None\<close>
  stands for a rejected promise: \<^verbatim>\<open>res.text()\<close> failing to read the body, \<^verbatim>\<open>res.json()\<close>
  failing to read or to parse it.
\<close>

record http_response =
  res_ok :: bool
  res_status :: nat
  res_text :: "string option"
  res_json :: "routes_field option"

text \<open>\<^verbatim>\<open>await fetch(...)\<close> rejects (backend down, network error) or gives a response.\<close>

datatype fetch_result = FetchRejected | Replied http_response

text \<open>Sending the POST request is recorded in the log of requests.\<close>

definition post :: "compare_request \<Rightarrow> session \<Rightarrow> session" where
  "post req s = s\<lparr>requests := requests s @ [req]\<rparr>"

text \<open>
  The \<^verbatim>\<open>catch\<close> block (lines 197-202):
  \<^verbatim>\<open>alert("Could not fetch routes ..."); setRoutes([]); setSelectedRouteId(null);\<close>
\<close>

definition catch_block :: "session \<Rightarrow> session" where
  "catch_block s = setSelectedRouteId None (setRoutes [] (alert FetchFailed s))"

text \<open>
  The body of \<^verbatim>\<open>fetchRoutes\<close> after \<^verbatim>\<open>await fetch(...)\<close> (lines 180-202), run on the session
  as it is when the reply arrives. A rejected promise anywhere in the \<^verbatim>\<open>try\<close> block goes
  to the \<^verbatim>\<open>catch\<close> block. The last line is
  \<^verbatim>\<open>setSelectedRouteId(routesFromBackend[0]?.id ?? null)\<close>: the id of the first route, or
  \<^verbatim>\<open>null\<close> when there is none (\<^verbatim>\<open>??\<close> keeps every string, also the empty one).
\<close>

definition fetchRoutes_resume :: "fetch_result \<Rightarrow> session \<Rightarrow> session" where
  "fetchRoutes_resume reply s =
     (case reply of
        FetchRejected \<Rightarrow> catch_block s
      | Replied res \<Rightarrow>
          if \<not> res_ok res then
            (case res_text res of
               None \<Rightarrow> catch_block s
             | Some errText \<Rightarrow>
                 setSelectedRouteId None
                   (setRoutes [] (alert (BackendError (res_status res)) s)))
          else
            (case res_json res of
               None \<Rightarrow> catch_block s
             | Some data \<Rightarrow>
                 (let routesFromBackend =
                        (case data of RoutesArray rs \<Rightarrow> rs | NotAnArray \<Rightarrow> [])
                  in setSelectedRouteId
                       (case routesFromBackend of [] \<Rightarrow> None | r # _ \<Rightarrow> Some (route_id r))
                       (setRoutes routesFromBackend s))))"

text \<open>
  \<^verbatim>\<open>fetchRoutes\<close> (lines 164-203), with the backend as a function from the request to its
  reply. The guard \<^verbatim>\<open>if (!start || !end) { alert(...); return; }\<close> comes first; then the
  request carries the two points.
\<close>

definition fetchRoutes :: "(compare_request \<Rightarrow> fetch_result) \<Rightarrow> session \<Rightarrow> session" where
  "fetchRoutes backend s =
     (case start s of
        None \<Rightarrow> alert ClickPrompt s
      | Some a \<Rightarrow>
          (case end_pt s of
             None \<Rightarrow> alert ClickPrompt s
           | Some b \<Rightarrow>
               (let req = \<lparr>req_start = a, req_end = b\<rparr>
                in fetchRoutes_resume (backend req) (post req s))))"

text \<open>
  The failures of a comparison request: the fetch is rejected, the status is not a
  success, or the status is a success and the body cannot be parsed.
\<close>

definition request_failed :: "fetch_result \<Rightarrow> bool" where
  "request_failed reply =
     (case reply of
        FetchRejected \<Rightarrow> True
      | Replied res \<Rightarrow> \<not> res_ok res \<or> res_json res = None)"

section \<open>The route buttons\<close>

text \<open>
  The list of routes is rendered with one button per route (lines 237-251):
  \<^verbatim>\<open>routes.map((r, index) => ... <button onClick={() => setSelectedRouteId(r.id)}>)\<close>.
  This is the only call of \<^verbatim>\<open>setSelectedRouteId\<close> with an id; the setter itself compares
  nothing. \<open>isSelected\<close> is \<^verbatim>\<open>r.id === selectedRouteId\<close> (lines 240 and 345).
\<close>

definition routeButton_onClick :: "Route \<Rightarrow> session \<Rightarrow> session" where
  "routeButton_onClick r s = setSelectedRouteId (Some (route_id r)) s"

definition isSelected :: "Route \<Rightarrow> session \<Rightarrow> bool" where
  "isSelected r s = (selectedRouteId s = Some (route_id r))"

text \<open>The selected id, when there is one, is the id of a route of the session.\<close>

definition selection_ok :: "session \<Rightarrow> bool" where
  "selection_ok s =
     (case selectedRouteId s of
        None \<Rightarrow> True
      | Some sid \<Rightarrow> sid \<in> set (map route_id (routes s)))"

section \<open>FitToRoutes\<close>

text \<open>
  \<^verbatim>\<open>FitToRoutes\<close> (lines 398-411) runs when the routes change. It either leaves the map
  alone (\<open>None\<close>) or calls \<^verbatim>\<open>map.fitBounds(allPoints, { padding: [30, 30] })\<close>:
  \<^verbatim>\<open>
  if (!routes.length) return;
  const allPoints = routes.flatMap(r => r.geometry);
  if (allPoints.length) { map.fitBounds(allPoints as any, { padding: [30, 30] }); }
  \<close>
\<close>

record fitBounds_call =
  fb_points :: "LatLng list"
  fb_padding :: "real \<times> real"

definition FitToRoutes :: "Route list \<Rightarrow> fitBounds_call option" where
  "FitToRoutes rs =
     (if length rs = 0 then None
      else (let allPoints = concat (map geometry rs)
            in if length allPoints \<noteq> 0
               then Some \<lparr>fb_points = allPoints, fb_padding = (30, 30)\<rparr>
               else None))"

text \<open>A rectangle of latitudes and longitudes.\<close>

record Region =
  minLat :: real
  maxLat :: real
  minLon :: real
  maxLon :: real

text \<open>
  Modelled from the spec: \<^verbatim>\<open>map.fitBounds\<close> belongs to the Leaflet library, which is not
  among the sources. Section 4.4 of the specification says what the fitted region is:
  \<open>minLat, maxLat, minLon, maxLon\<close> across all points, the minimal axis-aligned
  bounding rectangle, in one pass over the points, and that rectangle expanded by the
  padding. \<open>extend_bounds\<close> widens a rectangle to hold one more point, \<open>bounding_box\<close>
  is the pass over the points (none for no point), \<open>expand\<close> adds the margin.
\<close>

definition extend_bounds :: "LatLng \<Rightarrow> Region \<Rightarrow> Region" where
  "extend_bounds q b =
     \<lparr>minLat = min (minLat b) (fst q), maxLat = max (maxLat b) (fst q),
      minLon = min (minLon b) (snd q), maxLon = max (maxLon b) (snd q)\<rparr>"

fun bounding_box :: "LatLng list \<Rightarrow> Region option" where
  "bounding_box [] = None"
| "bounding_box (q # qs) =
     Some (fold extend_bounds qs
             \<lparr>minLat = fst q, maxLat = fst q, minLon = snd q, maxLon = snd q\<rparr>)"

definition expand :: "real \<times> real \<Rightarrow> Region \<Rightarrow> Region" where
  "expand pad b =
     \<lparr>minLat = minLat b - snd pad, maxLat = maxLat b + snd pad,
      minLon = minLon b - fst pad, maxLon = maxLon b + fst pad\<rparr>"

text \<open>
  Modelled from the spec: the region a call of \<^verbatim>\<open>map.fitBounds\<close> shows, by section 4.4
  (the padding \<^verbatim>\<open>[x, y]\<close> of the call widens the longitudes by \<open>x\<close> and the latitudes by
  \<open>y\<close>).
\<close>

definition fitBounds :: "fitBounds_call \<Rightarrow> Region option" where
  "fitBounds c = map_option (expand (fb_padding c)) (bounding_box (fb_points c))"

text \<open>
  Modelled from the spec: \<open>fit(routes, padding)\<close> of section 4.4. The source has no
  function of two arguments: it is \<open>FitToRoutes\<close> followed by \<^verbatim>\<open>map.fitBounds\<close>, and the
  padding is the constant 30 on both axes. \<open>fit\<close> puts the argument where the source
  has the constant, so that the source is the instance \<open>fit routes 30\<close>.
\<close>

definition fit :: "Route list \<Rightarrow> real \<Rightarrow> Region option" where
  "fit rs p =
     (case FitToRoutes rs of
        None \<Rightarrow> None
      | Some c \<Rightarrow> fitBounds (c\<lparr>fb_padding := (p, p)\<rparr>))"

section \<open>The panels of the selected route\<close>

text \<open>
  The elevation panel (lines 276-297) is rendered under the condition
  \<^verbatim>\<open>selectedRouteId && routes.find(r => r.id === selectedRouteId)?.elevation_profile\<close>.
  \<^verbatim>\<open>selectedRouteId\<close> is a string or \<^verbatim>\<open>null\<close>, and \<^verbatim>\<open>&&\<close> tests its truthiness: \<^verbatim>\<open>null\<close>
  and the empty string are falsy. By the type \<^verbatim>\<open>Route\<close> the profile of a route that is
  found is an array, which is truthy. The chart gets the profile as its data and plots
  \<^verbatim>\<open>elev_m\<close> over \<^verbatim>\<open>dist_m\<close>.
\<close>

definition truthy :: "string option \<Rightarrow> bool" where
  "truthy v = (case v of None \<Rightarrow> False | Some str \<Rightarrow> str \<noteq> [])"

text \<open>\<^verbatim>\<open>routes.find(r => r.id === selectedRouteId)\<close>: the first route with that id.\<close>

definition find_selected :: "session \<Rightarrow> Route option" where
  "find_selected s =
     (case selectedRouteId s of
        None \<Rightarrow> None
      | Some sid \<Rightarrow> find (\<lambda>r. route_id r = sid) (routes s))"

definition elevationPanel :: "session \<Rightarrow> elevation_sample list option" where
  "elevationPanel s =
     (if truthy (selectedRouteId s)
      then map_option elevation_profile (find_selected s)
      else None)"

text \<open>The points the chart plots: \<^verbatim>\<open>dist_m\<close> on the x axis, \<^verbatim>\<open>elev_m\<close> on the y axis.\<close>

definition elevationSeries :: "session \<Rightarrow> (real \<times> real) list option" where
  "elevationSeries s = map_option (map (\<lambda>e. (dist_m e, elev_m e))) (elevationPanel s)"

text \<open>
  \<^verbatim>\<open>x.toFixed(0)\<close> on a real number: the nearest integer, the larger one in magnitude
  when two are equally near. (The exponent form that JavaScript prints from \<open>10^21\<close> on is
  left out.)
\<close>

definition toFixed0 :: "real \<Rightarrow> int" where
  "toFixed0 x = (if x < 0 then - \<lfloor>- x + 1 / 2\<rfloor> else \<lfloor>x + 1 / 2\<rfloor>)"

text \<open>
  The surface panel (lines 299-321), under the condition
  \<^verbatim>\<open>selectedRouteId && routes.find(r => r.id === selectedRouteId)?.osm_summary\<close>. It shows
  the kerb count, the surfaces and the smoothness values when there are any
  (\<^verbatim>\<open>Object.keys(osm.surfaces).length > 0\<close>), and
  \<^verbatim>\<open>(osm.unknown_surface_ratio * 100).toFixed(0)\<close> followed by a percent sign.
\<close>

record surface_card =
  kerbs :: real
  surfaceBreakdown :: "(string \<times> real) list option"
  smoothnessBreakdown :: "(string \<times> real) list option"
  unknownSurfacePercent :: int

definition surface_card_of :: "osm_summary_t \<Rightarrow> surface_card" where
  "surface_card_of osm =
     \<lparr>kerbs = kerb_nodes_count osm,
      surfaceBreakdown = (if length (surfaces osm) > 0 then Some (surfaces osm) else None),
      smoothnessBreakdown =
        (if length (smoothness osm) > 0 then Some (smoothness osm) else None),
      unknownSurfacePercent = toFixed0 (unknown_surface_ratio osm * 100)\<rparr>"

definition surfacePanel :: "session \<Rightarrow> surface_card option" where
  "surfacePanel s =
     (if truthy (selectedRouteId s)
      then map_option (\<lambda>r. surface_card_of (osm_summary r)) (find_selected s)
      else None)"

text \<open>The invariant of the elevation profile in the data model: distances never decrease.\<close>

definition dist_nondecreasing :: "elevation_sample list \<Rightarrow> bool" where
  "dist_nondecreasing prof = sorted (map dist_m prof)"

section \<open>Example data\<close>

text \<open>Routes and sessions on which the theorems below are evaluated.\<close>

definition flat_metrics :: elevation_metrics_t where
  "flat_metrics =
     \<lparr>ascent_m = 4, descent_m = 1, max_slope_percent = 3,
      steep_distance_m = \<lparr>gt5 = 0, gt8 = 0\<rparr>\<rparr>"

definition two_samples :: "elevation_sample list" where
  "two_samples =
     [\<lparr>idx = 0, lat = 0, lon = 0, elev_m = 10, dist_m = 0\<rparr>,
      \<lparr>idx = 1, lat = 1, lon = 1, elev_m = 14, dist_m = 120\<rparr>]"

definition paved_osm :: osm_summary_t where
  "paved_osm =
     \<lparr>steps_count = 0, surfaces = [(''asphalt'', 7)], smoothness = [],
      highway_types = [(''footway'', 7)], kerb_nodes_count = 2,
      unknown_surface_ratio = 1 / 8, sample_points_used = 8\<rparr>"

definition example_route :: "string \<Rightarrow> LatLng list \<Rightarrow> Route" where
  "example_route name geo =
     \<lparr>route_id = name, geometry = geo, distance_m = 120, duration_s = 90,
      elevation_metrics = flat_metrics, elevation_profile = two_samples,
      osm_summary = paved_osm, accessibility_score = 80, flags = []\<rparr>"

definition unit_route :: Route where
  "unit_route = example_route ''r1'' [(0, 0), (1, 1)]"

definition far_route :: Route where
  "far_route = example_route ''r2'' [(2, -3), (5, 4)]"

definition unnamed_route :: Route where
  "unnamed_route = example_route [] [(0, 0), (1, 1)]"

text \<open>Both points set, one route shown and selected.\<close>

definition busy_session :: session where
  "busy_session =
     \<lparr>routes = [far_route], start = Some (1, 2), end_pt = Some (3, 4),
      selectedRouteId = Some ''r2'', alerts = [], requests = []\<rparr>"

definition ok_reply :: "Route list \<Rightarrow> fetch_result" where
  "ok_reply rs =
     Replied \<lparr>res_ok = True, res_status = 200, res_text = Some [],
              res_json = Some (RoutesArray rs)\<rparr>"

definition error_reply :: fetch_result where
  "error_reply =
     Replied \<lparr>res_ok = False, res_status = 500, res_text = Some ''boom'',
              res_json = None\<rparr>"

section \<open>Properties of ClickToSetPoints\<close>

lemma clicks_Nil: "clicks [] s = s"
  by (simp add: clicks_def)

lemma clicks_snoc: "clicks (ps @ [p]) s = click p (clicks ps s)"
  by (simp add: clicks_def)

lemma clicks_Cons: "clicks (p # ps) s = clicks ps (click p s)"
  by (simp add: clicks_def)

lemma click_start_set: "start (click p s) \<noteq> None"
  by (simp add: click_def setStart_def setEnd_def)

lemma click_from_none:
  "start s = None \<Longrightarrow> start (click p s) = Some p \<and> end_pt (click p s) = end_pt s"
  by (simp add: click_def setStart_def)

lemma click_from_start:
  "start s = Some a \<Longrightarrow> end_pt s = None \<Longrightarrow>
     start (click p s) = Some a \<and> end_pt (click p s) = Some p"
  by (simp add: click_def setEnd_def)

lemma click_from_both:
  "start s = Some a \<Longrightarrow> end_pt s = Some b \<Longrightarrow>
     start (click p s) = Some p \<and> end_pt (click p s) = None"
  by (simp add: click_def setStart_def setEnd_def)

text \<open>A click touches the two points only.\<close>

lemma click_frame:
  "routes (click p s) = routes s \<and> selectedRouteId (click p s) = selectedRouteId s \<and>
   alerts (click p s) = alerts s \<and> requests (click p s) = requests s"
  by (simp add: click_def setStart_def setEnd_def)

text \<open>
  The shape of the selection after \<open>n \<ge> 1\<close> clicks from the initial state: an odd
  number of clicks leaves the last point as start and no end, an even number leaves the
  last two points as start and end.
\<close>

lemma clicks_shape:
  "ps \<noteq> [] \<Longrightarrow>
     (odd (length ps) \<longrightarrow>
        start (clicks ps init) = Some (last ps) \<and> end_pt (clicks ps init) = None) \<and>
     (even (length ps) \<longrightarrow>
        start (clicks ps init) = Some (ps ! (length ps - 2)) \<and>
        end_pt (clicks ps init) = Some (last ps))"
proof (induction ps rule: rev_nonempty_induct)
  case (single p)
  have "start init = None" by (simp add: init_def)
  from click_from_none [OF this, of p] show ?case
    by (simp add: clicks_Cons clicks_Nil init_def)
next
  case (snoc p ps)
  show ?case
  proof (cases "odd (length ps)")
    case True
    with snoc.IH have st: "start (clicks ps init) = Some (last ps)"
      and en: "end_pt (clicks ps init) = None" by simp_all
    from snoc.hyps have "(ps @ [p]) ! (length ps - 1) = last ps"
      by (simp add: nth_append last_conv_nth)
    with click_from_start [OF st en, of p] True show ?thesis
      by (simp add: clicks_snoc)
  next
    case False
    with snoc.IH have st: "start (clicks ps init) = Some (ps ! (length ps - 2))"
      and en: "end_pt (clicks ps init) = Some (last ps)" by simp_all
    from click_from_both [OF st en, of p] False show ?thesis
      by (simp add: clicks_snoc)
  qed
qed

text \<open>
  C1 (as the claim states it, refuted). A cycle of three clicks would make the fourth
  click behave as the first one (the fourth point as start, no end) and the sixth as
  the third one (the sixth point as start, no end). The fourth click finds a start and
  no end, so it sets the end: the session holds the third and the fourth point. After
  six clicks it holds the fifth and the sixth point.
\<close>

theorem click_cycle_period_counterexample:
  "start (clicks [(1, 1), (2, 2), (3, 3), (4, 4)] init) = Some (3, 3) \<and>
   end_pt (clicks [(1, 1), (2, 2), (3, 3), (4, 4)] init) = Some (4, 4) \<and>
   start (clicks [(1, 1), (2, 2), (3, 3), (4, 4)] init) \<noteq> Some (4, 4) \<and>
   end_pt (clicks [(1, 1), (2, 2), (3, 3), (4, 4)] init) \<noteq> None \<and>
   start (clicks [(1, 1), (2, 2), (3, 3), (4, 4), (5, 5), (6, 6)] init) = Some (5, 5) \<and>
   end_pt (clicks [(1, 1), (2, 2), (3, 3), (4, 4), (5, 5), (6, 6)] init) = Some (6, 6)"
  by (simp add: clicks_def click_def setStart_def setEnd_def init_def)

text \<open>
  C1 (amended). From the initial session, one click \<open>a\<close> leaves start \<open>a\<close> and no end; a
  second click \<open>b\<close> leaves start \<open>a\<close> and end \<open>b\<close>; a third click \<open>c\<close> leaves start \<open>c\<close>
  and no end. From then on the clicks alternate between the last two shapes: after any
  odd number of clicks the start is the last point and there is no end, after any even
  number (two or more) the start is the point before the last and the end is the last.
\<close>

theorem click_sequence:
  "start (clicks [a] init) = Some a \<and> end_pt (clicks [a] init) = None \<and>
   start (clicks [a, b] init) = Some a \<and> end_pt (clicks [a, b] init) = Some b \<and>
   start (clicks [a, b, c] init) = Some c \<and> end_pt (clicks [a, b, c] init) = None \<and>
   (ps \<noteq> [] \<longrightarrow>
      (odd (length ps) \<longrightarrow>
         start (clicks ps init) = Some (last ps) \<and> end_pt (clicks ps init) = None) \<and>
      (even (length ps) \<longrightarrow>
         start (clicks ps init) = Some (ps ! (length ps - 2)) \<and>
         end_pt (clicks ps init) = Some (last ps)))"
proof -
  have one: "start (clicks [a] init) = Some a \<and> end_pt (clicks [a] init) = None"
    using clicks_shape [of "[a]"] by simp
  have two: "start (clicks [a, b] init) = Some a \<and> end_pt (clicks [a, b] init) = Some b"
    using clicks_shape [of "[a, b]"] by simp
  have three:
    "start (clicks [a, b, c] init) = Some c \<and> end_pt (clicks [a, b, c] init) = None"
    using clicks_shape [of "[a, b, c]"] by simp
  from one two three clicks_shape [of ps] show ?thesis by blast
qed

text \<open>Five clicks and six clicks, by the theorem.\<close>

theorem click_sequence_witness:
  "start (clicks [(1, 1), (2, 2), (3, 3), (4, 4), (5, 5)] init) = Some (5, 5) \<and>
   end_pt (clicks [(1, 1), (2, 2), (3, 3), (4, 4), (5, 5)] init) = None \<and>
   start (clicks [(1, 1), (2, 2), (3, 3), (4, 4), (5, 5), (6, 6)] init) = Some (5, 5) \<and>
   end_pt (clicks [(1, 1), (2, 2), (3, 3), (4, 4), (5, 5), (6, 6)] init) = Some (6, 6)"
  using click_sequence [of "(1, 1)" "(2, 2)" "(3, 3)" "[(1, 1), (2, 2), (3, 3), (4, 4), (5, 5)]"]
    click_sequence [of "(1, 1)" "(2, 2)" "(3, 3)"
      "[(1, 1), (2, 2), (3, 3), (4, 4), (5, 5), (6, 6)]"]
  by simp

text \<open>
  C10. The initial session has no end point without a start point, every click leads
  to a session that has none either, and so does every sequence of clicks from the
  initial session.
\<close>

theorem click_keeps_points_ok:
  "points_ok init \<and> (points_ok s \<longrightarrow> points_ok (click p s)) \<and> points_ok (clicks ps init)"
proof -
  have a: "points_ok init" by (simp add: points_ok_def init_def)
  have b: "points_ok (click q t)" for q t
    using click_start_set [of q t] by (simp add: points_ok_def)
  have c: "points_ok (clicks ps init)"
  proof (cases ps rule: rev_cases)
    case Nil
    with a show ?thesis by (simp add: clicks_Nil)
  next
    case (snoc qs q)
    with b show ?thesis by (simp add: clicks_snoc)
  qed
  from a b c show ?thesis by simp
qed

text \<open>After two clicks the end point is set, and so is the start point.\<close>

theorem click_keeps_points_ok_witness:
  "end_pt (clicks [(1, 2), (3, 4)] init) = Some (3, 4) \<and>
   start (clicks [(1, 2), (3, 4)] init) \<noteq> None \<and>
   points_ok (click (5, 6) (clicks [(1, 2), (3, 4)] init))"
proof -
  have e: "end_pt (clicks [(1, 2), (3, 4)] init) = Some (3, 4)"
    by (simp add: clicks_def click_def setStart_def setEnd_def init_def)
  from click_keeps_points_ok [of "clicks [(1, 2), (3, 4)] init" "(5, 6)" "[(1, 2), (3, 4)]"]
  have "points_ok (clicks [(1, 2), (3, 4)] init)"
    and "points_ok (click (5, 6) (clicks [(1, 2), (3, 4)] init))" by simp_all
  with e show ?thesis by (simp add: points_ok_def)
qed

section \<open>Properties of fetchRoutes\<close>

lemmas setters =
  setRoutes_def setSelectedRouteId_def setStart_def setEnd_def alert_def post_def

lemma catch_block_fields:
  "routes (catch_block s) = []" "selectedRouteId (catch_block s) = None"
  "alerts (catch_block s) = alerts s @ [FetchFailed]"
  "start (catch_block s) = start s" "end_pt (catch_block s) = end_pt s"
  "requests (catch_block s) = requests s"
  by (simp_all add: catch_block_def setters)

text \<open>Whatever the reply, the part after the await touches neither point nor the log of requests.\<close>

lemma fetchRoutes_resume_frame:
  "start (fetchRoutes_resume reply s) = start s \<and>
   end_pt (fetchRoutes_resume reply s) = end_pt s \<and>
   requests (fetchRoutes_resume reply s) = requests s"
  by (simp add: fetchRoutes_resume_def catch_block_fields setters Let_def
      split: fetch_result.splits option.splits)

lemma fetchRoutes_both_set:
  "start s = Some a \<Longrightarrow> end_pt s = Some b \<Longrightarrow>
     fetchRoutes backend s =
       fetchRoutes_resume (backend \<lparr>req_start = a, req_end = b\<rparr>)
         (post \<lparr>req_start = a, req_end = b\<rparr> s)"
  by (simp add: fetchRoutes_def Let_def)

lemma fetchRoutes_resume_success:
  "res_ok res \<Longrightarrow> res_json res = Some (RoutesArray rs) \<Longrightarrow>
     fetchRoutes_resume (Replied res) s =
       setSelectedRouteId (case rs of [] \<Rightarrow> None | r # _ \<Rightarrow> Some (route_id r)) (setRoutes rs s)"
  by (simp add: fetchRoutes_resume_def)

lemma fetchRoutes_resume_failed:
  assumes "request_failed reply"
  shows "routes (fetchRoutes_resume reply s) = [] \<and>
         selectedRouteId (fetchRoutes_resume reply s) = None \<and>
         (\<exists>m. m \<noteq> ClickPrompt \<and> alerts (fetchRoutes_resume reply s) = alerts s @ [m])"
proof (cases reply)
  case FetchRejected
  then show ?thesis by (simp add: fetchRoutes_resume_def catch_block_fields)
next
  case (Replied res)
  show ?thesis
  proof (cases "res_ok res")
    case True
    with assms Replied have "res_json res = None" by (simp add: request_failed_def)
    with True Replied show ?thesis by (simp add: fetchRoutes_resume_def catch_block_fields)
  next
    case False
    with Replied show ?thesis
      by (cases "res_text res") (simp_all add: fetchRoutes_resume_def catch_block_fields setters)
  qed
qed

text \<open>
  C2. When the reply is a success whose body carries a non-empty array of routes, the
  session's routes are that array, in its order, and the selected id is the id of its
  first route, whatever was selected before. This holds for the part after the await on
  any session, and for the whole of \<open>fetchRoutes\<close> when both points are set.
\<close>

theorem fetchRoutes_selects_first:
  assumes "res_ok res" and "res_json res = Some (RoutesArray rs)" and "rs \<noteq> []"
  shows "routes (fetchRoutes_resume (Replied res) s) = rs \<and>
         selectedRouteId (fetchRoutes_resume (Replied res) s) = Some (route_id (hd rs)) \<and>
         (start s \<noteq> None \<and> end_pt s \<noteq> None \<longrightarrow>
            routes (fetchRoutes (\<lambda>req. Replied res) s) = rs \<and>
            selectedRouteId (fetchRoutes (\<lambda>req. Replied res) s) = Some (route_id (hd rs)))"
proof -
  obtain r rest where rs: "rs = r # rest" using assms(3) by (cases rs) auto
  have resume: "routes (fetchRoutes_resume (Replied res) t) = rs \<and>
      selectedRouteId (fetchRoutes_resume (Replied res) t) = Some (route_id (hd rs))" for t
    using fetchRoutes_resume_success [OF assms(1,2), of t] rs by (simp add: setters)
  show ?thesis
  proof (intro conjI impI)
    assume "start s \<noteq> None \<and> end_pt s \<noteq> None"
    then obtain a b where ab: "start s = Some a" "end_pt s = Some b" by auto
    show "routes (fetchRoutes (\<lambda>req. Replied res) s) = rs"
      and "selectedRouteId (fetchRoutes (\<lambda>req. Replied res) s) = Some (route_id (hd rs))"
      using resume by (simp_all add: fetchRoutes_both_set [OF ab])
  qed (simp_all add: resume)
qed

text \<open>A session that shows and selects \<open>r2\<close> receives the routes \<open>r1, r2\<close>.\<close>

theorem fetchRoutes_selects_first_witness:
  "selectedRouteId busy_session = Some ''r2'' \<and>
   routes (fetchRoutes (\<lambda>req. ok_reply [unit_route, far_route]) busy_session) =
     [unit_route, far_route] \<and>
   selectedRouteId (fetchRoutes (\<lambda>req. ok_reply [unit_route, far_route]) busy_session) =
     Some ''r1''"
  using fetchRoutes_selects_first
    [of "\<lparr>res_ok = True, res_status = 200, res_text = Some [],
          res_json = Some (RoutesArray [unit_route, far_route])\<rparr>"
        "[unit_route, far_route]" busy_session]
  by (simp add: ok_reply_def busy_session_def unit_route_def example_route_def)

text \<open>
  C3. When the request fails (the fetch is rejected, the status is not a success, or
  the body of a success cannot be parsed), the session's routes are empty, nothing is
  selected, and one alert has been shown to the user. This holds for the part after the
  await on any session, and for the whole of \<open>fetchRoutes\<close> when both points are set.
\<close>

theorem fetchRoutes_failure_resets:
  assumes "request_failed reply"
  shows "routes (fetchRoutes_resume reply s) = [] \<and>
         selectedRouteId (fetchRoutes_resume reply s) = None \<and>
         (\<exists>m. m \<noteq> ClickPrompt \<and> alerts (fetchRoutes_resume reply s) = alerts s @ [m]) \<and>
         (start s \<noteq> None \<and> end_pt s \<noteq> None \<longrightarrow>
            routes (fetchRoutes (\<lambda>req. reply) s) = [] \<and>
            selectedRouteId (fetchRoutes (\<lambda>req. reply) s) = None \<and>
            (\<exists>m. m \<noteq> ClickPrompt \<and> alerts (fetchRoutes (\<lambda>req. reply) s) = alerts s @ [m]))"
proof -
  have "routes (fetchRoutes (\<lambda>req. reply) s) = [] \<and>
        selectedRouteId (fetchRoutes (\<lambda>req. reply) s) = None \<and>
        (\<exists>m. m \<noteq> ClickPrompt \<and> alerts (fetchRoutes (\<lambda>req. reply) s) = alerts s @ [m])"
    if "start s \<noteq> None \<and> end_pt s \<noteq> None"
  proof -
    from that obtain a b where ab: "start s = Some a" "end_pt s = Some b" by auto
    from fetchRoutes_resume_failed [OF assms, of "post \<lparr>req_start = a, req_end = b\<rparr> s"]
    show ?thesis by (simp add: fetchRoutes_both_set [OF ab] post_def)
  qed
  with fetchRoutes_resume_failed [OF assms, of s] show ?thesis by blast
qed

text \<open>A status 500 and a rejected fetch, on a session that shows a route.\<close>

theorem fetchRoutes_failure_resets_witness:
  "request_failed error_reply \<and> request_failed FetchRejected \<and>
   routes busy_session \<noteq> [] \<and>
   routes (fetchRoutes (\<lambda>req. error_reply) busy_session) = [] \<and>
   selectedRouteId (fetchRoutes (\<lambda>req. error_reply) busy_session) = None \<and>
   alerts (fetchRoutes (\<lambda>req. error_reply) busy_session) = [BackendError 500] \<and>
   routes (fetchRoutes_resume FetchRejected busy_session) = [] \<and>
   alerts (fetchRoutes_resume FetchRejected busy_session) = [FetchFailed]"
proof -
  have f: "request_failed error_reply" "request_failed FetchRejected"
    by (simp_all add: request_failed_def error_reply_def)
  have a: "alerts (fetchRoutes (\<lambda>req. error_reply) busy_session) = [BackendError 500]"
    "alerts (fetchRoutes_resume FetchRejected busy_session) = [FetchFailed]"
    "routes busy_session \<noteq> []"
    by (simp_all add: fetchRoutes_def fetchRoutes_resume_def catch_block_def setters
        error_reply_def busy_session_def)
  from f a fetchRoutes_failure_resets [OF f(1), of busy_session]
    fetchRoutes_failure_resets [OF f(2), of busy_session]
  show ?thesis by (simp add: busy_session_def)
qed

text \<open>
  C5 (as the claim states it, refuted). A success with an empty array of routes, on a
  session with both points set: the routes are emptied and the selection is cleared,
  and no alert is shown. The log of alerts is what it was: empty.
\<close>

theorem fetchRoutes_empty_not_signalled_counterexample:
  "routes (fetchRoutes (\<lambda>req. ok_reply []) busy_session) = [] \<and>
   selectedRouteId (fetchRoutes (\<lambda>req. ok_reply []) busy_session) = None \<and>
   alerts (fetchRoutes (\<lambda>req. ok_reply []) busy_session) = alerts busy_session \<and>
   alerts (fetchRoutes (\<lambda>req. ok_reply []) busy_session) = []"
  by (simp add: fetchRoutes_def fetchRoutes_resume_def setters ok_reply_def busy_session_def)

text \<open>
  C5 (amended). When the reply is a success and its body carries an empty array of
  routes, or no array of routes at all (which is read as the empty array), the
  session's routes are empty and nothing is selected; no alert is shown, the empty
  result is not treated as a failure.
\<close>

theorem fetchRoutes_empty_reply:
  assumes "res_ok res"
    and "res_json res = Some NotAnArray \<or> res_json res = Some (RoutesArray [])"
  shows "routes (fetchRoutes_resume (Replied res) s) = [] \<and>
         selectedRouteId (fetchRoutes_resume (Replied res) s) = None \<and>
         alerts (fetchRoutes_resume (Replied res) s) = alerts s \<and>
         (start s \<noteq> None \<and> end_pt s \<noteq> None \<longrightarrow>
            routes (fetchRoutes (\<lambda>req. Replied res) s) = [] \<and>
            selectedRouteId (fetchRoutes (\<lambda>req. Replied res) s) = None \<and>
            alerts (fetchRoutes (\<lambda>req. Replied res) s) = alerts s)"
proof -
  have resume: "routes (fetchRoutes_resume (Replied res) t) = [] \<and>
      selectedRouteId (fetchRoutes_resume (Replied res) t) = None \<and>
      alerts (fetchRoutes_resume (Replied res) t) = alerts t" for t
    using assms by (auto simp add: fetchRoutes_resume_def setters)
  have "routes (fetchRoutes (\<lambda>req. Replied res) s) = [] \<and>
        selectedRouteId (fetchRoutes (\<lambda>req. Replied res) s) = None \<and>
        alerts (fetchRoutes (\<lambda>req. Replied res) s) = alerts s"
    if "start s \<noteq> None \<and> end_pt s \<noteq> None"
  proof -
    from that obtain a b where ab: "start s = Some a" "end_pt s = Some b" by auto
    from resume [of "post \<lparr>req_start = a, req_end = b\<rparr> s"] show ?thesis
      by (simp add: fetchRoutes_both_set [OF ab] post_def)
  qed
  with resume [of s] show ?thesis by blast
qed

text \<open>A success whose body has no array of routes, on a session that shows a route.\<close>

theorem fetchRoutes_empty_reply_witness:
  "routes busy_session \<noteq> [] \<and>
   routes (fetchRoutes_resume (Replied \<lparr>res_ok = True, res_status = 200, res_text = Some [],
       res_json = Some NotAnArray\<rparr>) busy_session) = [] \<and>
   selectedRouteId (fetchRoutes_resume (Replied \<lparr>res_ok = True, res_status = 200,
       res_text = Some [], res_json = Some NotAnArray\<rparr>) busy_session) = None \<and>
   alerts (fetchRoutes (\<lambda>req. Replied \<lparr>res_ok = True, res_status = 200,
       res_text = Some [], res_json = Some NotAnArray\<rparr>) busy_session) = []"
  using fetchRoutes_empty_reply
    [of "\<lparr>res_ok = True, res_status = 200, res_text = Some [], res_json = Some NotAnArray\<rparr>"
        busy_session]
  by (simp add: busy_session_def)

text \<open>
  C6. When the start point or the end point is not set, \<open>fetchRoutes\<close> sends no request
  (the log of requests is unchanged) and leaves the routes, the selection and both
  points as they were; it shows the alert that asks for two clicks.
\<close>

theorem fetchRoutes_needs_both_points:
  assumes "start s = None \<or> end_pt s = None"
  shows "requests (fetchRoutes backend s) = requests s \<and>
         routes (fetchRoutes backend s) = routes s \<and>
         selectedRouteId (fetchRoutes backend s) = selectedRouteId s \<and>
         start (fetchRoutes backend s) = start s \<and>
         end_pt (fetchRoutes backend s) = end_pt s \<and>
         alerts (fetchRoutes backend s) = alerts s @ [ClickPrompt]"
  using assms by (auto simp add: fetchRoutes_def alert_def split: option.splits)

text \<open>After one click only the start point is set.\<close>

theorem fetchRoutes_needs_both_points_witness:
  "end_pt (click (1, 2) init) = None \<and>
   requests (fetchRoutes (\<lambda>req. ok_reply [unit_route]) (click (1, 2) init)) = [] \<and>
   routes (fetchRoutes (\<lambda>req. ok_reply [unit_route]) (click (1, 2) init)) = [] \<and>
   selectedRouteId (fetchRoutes (\<lambda>req. ok_reply [unit_route]) (click (1, 2) init)) = None \<and>
   start (fetchRoutes (\<lambda>req. ok_reply [unit_route]) (click (1, 2) init)) = Some (1, 2) \<and>
   alerts (fetchRoutes (\<lambda>req. ok_reply [unit_route]) (click (1, 2) init)) = [ClickPrompt]"
proof -
  have e: "end_pt (click (1, 2) init) = None" "start (click (1, 2) init) = Some (1, 2)"
    "routes (click (1, 2) init) = []" "selectedRouteId (click (1, 2) init) = None"
    "alerts (click (1, 2) init) = []" "requests (click (1, 2) init) = []"
    by (simp_all add: click_def setStart_def init_def)
  from e fetchRoutes_needs_both_points
    [of "click (1, 2) init" "\<lambda>req. ok_reply [unit_route]"]
  show ?thesis by simp
qed

text \<open>
  C9. When the request fails, the start point and the end point are what they were
  before: after the part that follows the await, on any session, and after the whole of
  \<open>fetchRoutes\<close>.
\<close>

theorem fetchRoutes_failure_keeps_points:
  assumes "request_failed reply"
  shows "start (fetchRoutes_resume reply s) = start s \<and>
         end_pt (fetchRoutes_resume reply s) = end_pt s \<and>
         start (fetchRoutes (\<lambda>req. reply) s) = start s \<and>
         end_pt (fetchRoutes (\<lambda>req. reply) s) = end_pt s"
proof -
  have "start (fetchRoutes backend s) = start s \<and> end_pt (fetchRoutes backend s) = end_pt s"
    for backend
    by (simp add: fetchRoutes_def fetchRoutes_resume_frame alert_def post_def Let_def
        split: option.splits)
  with fetchRoutes_resume_frame [of reply s] show ?thesis by simp
qed

text \<open>A status 500 and a rejected fetch, with the points (1, 2) and (3, 4) set.\<close>

theorem fetchRoutes_failure_keeps_points_witness:
  "request_failed error_reply \<and>
   start (fetchRoutes (\<lambda>req. error_reply) busy_session) = Some (1, 2) \<and>
   end_pt (fetchRoutes (\<lambda>req. error_reply) busy_session) = Some (3, 4) \<and>
   start (fetchRoutes_resume FetchRejected busy_session) = Some (1, 2) \<and>
   end_pt (fetchRoutes_resume FetchRejected busy_session) = Some (3, 4)"
proof -
  have f: "request_failed error_reply" "request_failed FetchRejected"
    by (simp_all add: request_failed_def error_reply_def)
  from f fetchRoutes_failure_keeps_points [OF f(1), of busy_session]
    fetchRoutes_failure_keeps_points [OF f(2), of busy_session]
  show ?thesis by (simp add: busy_session_def)
qed

section \<open>Properties of the route buttons\<close>

text \<open>
  C4 (as the claim states it, refuted). The operation that selects is the setter
  \<open>setSelectedRouteId\<close>, and it stores what it is given: called with an id that no route
  of the session has, it replaces the selection \<open>r2\<close> by that id.
\<close>

theorem select_absent_id_counterexample:
  "''ghost'' \<notin> set (map route_id (routes busy_session)) \<and>
   selectedRouteId busy_session = Some ''r2'' \<and>
   selectedRouteId (setSelectedRouteId (Some ''ghost'') busy_session) = Some ''ghost''"
  by (simp add: setSelectedRouteId_def busy_session_def far_route_def example_route_def)

text \<open>
  C4 (amended). A selection can only be requested through the button of a route of the
  session, so the id it carries is always the id of a current route. The click sets the
  selected id to that id, whatever it was, and changes nothing else; the selected id is
  then the id of a route of the session.
\<close>

theorem routeButton_selects:
  assumes "r \<in> set (routes s)"
  shows "selectedRouteId (routeButton_onClick r s) = Some (route_id r) \<and>
         isSelected r (routeButton_onClick r s) \<and>
         selection_ok (routeButton_onClick r s) \<and>
         routes (routeButton_onClick r s) = routes s \<and>
         start (routeButton_onClick r s) = start s \<and>
         end_pt (routeButton_onClick r s) = end_pt s \<and>
         alerts (routeButton_onClick r s) = alerts s \<and>
         requests (routeButton_onClick r s) = requests s"
  using assms
  by (simp add: routeButton_onClick_def setSelectedRouteId_def isSelected_def selection_ok_def)

text \<open>The session shows \<open>r1\<close> and \<open>r2\<close> and selects \<open>r1\<close>; the button of \<open>r2\<close> is clicked.\<close>

theorem routeButton_selects_witness:
  "far_route \<in> set (routes (fetchRoutes_resume (ok_reply [unit_route, far_route]) init)) \<and>
   selectedRouteId (fetchRoutes_resume (ok_reply [unit_route, far_route]) init) = Some ''r1'' \<and>
   selectedRouteId
     (routeButton_onClick far_route
        (fetchRoutes_resume (ok_reply [unit_route, far_route]) init)) = Some ''r2''"
proof -
  have r: "routes (fetchRoutes_resume (ok_reply [unit_route, far_route]) init) =
      [unit_route, far_route]"
    and s: "selectedRouteId (fetchRoutes_resume (ok_reply [unit_route, far_route]) init) =
      Some ''r1''"
    by (simp_all add: fetchRoutes_resume_def ok_reply_def setRoutes_def setSelectedRouteId_def
        unit_route_def example_route_def)
  have m: "far_route \<in> set (routes (fetchRoutes_resume (ok_reply [unit_route, far_route]) init))"
    by (simp add: r)
  from routeButton_selects [OF m] m s show ?thesis
    by (simp add: far_route_def example_route_def)
qed

text \<open>
  The other handlers keep the selected id among the ids of the routes: the part of
  \<open>fetchRoutes\<close> after the await establishes it, a map click does not touch it.
\<close>

lemma fetchRoutes_resume_selection_ok: "selection_ok (fetchRoutes_resume reply s)"
  by (simp add: fetchRoutes_resume_def catch_block_def setRoutes_def setSelectedRouteId_def
      alert_def selection_ok_def Let_def
      split: fetch_result.splits option.splits routes_field.splits list.splits)

lemma click_selection_ok: "selection_ok s \<Longrightarrow> selection_ok (click p s)"
  using click_frame [of p s] by (simp add: selection_ok_def split: option.splits)

section \<open>Properties of FitToRoutes\<close>

text \<open>The pass over the points computes the four extremes.\<close>

lemma fold_extend_bounds:
  "minLat (fold extend_bounds qs b) = fold min (map fst qs) (minLat b) \<and>
   maxLat (fold extend_bounds qs b) = fold max (map fst qs) (maxLat b) \<and>
   minLon (fold extend_bounds qs b) = fold min (map snd qs) (minLon b) \<and>
   maxLon (fold extend_bounds qs b) = fold max (map snd qs) (maxLon b)"
proof (induction qs arbitrary: b)
  case Nil
  show ?case by simp
next
  case (Cons q qs)
  have f: "minLat (extend_bounds q b) = min (fst q) (minLat b)"
    "maxLat (extend_bounds q b) = max (fst q) (maxLat b)"
    "minLon (extend_bounds q b) = min (snd q) (minLon b)"
    "maxLon (extend_bounds q b) = max (snd q) (maxLon b)"
    by (simp_all add: extend_bounds_def min.commute max.commute)
  have "fold extend_bounds (q # qs) b = fold extend_bounds qs (extend_bounds q b)"
    by simp
  with Cons.IH [of "extend_bounds q b"] f show ?case by simp
qed

lemma bounding_box_Min_Max:
  assumes "pts \<noteq> []"
  shows "bounding_box pts =
     Some \<lparr>minLat = Min (fst ` set pts), maxLat = Max (fst ` set pts),
           minLon = Min (snd ` set pts), maxLon = Max (snd ` set pts)\<rparr>"
proof -
  from assms obtain q qs where pts: "pts = q # qs" by (cases pts) auto
  have mn: "Min (f ` set (q # qs)) = fold min (map f qs) (f q)" for f :: "LatLng \<Rightarrow> real"
    using Min.set_eq_fold [of "f q" "map f qs"] by simp
  have mx: "Max (f ` set (q # qs)) = fold max (map f qs) (f q)" for f :: "LatLng \<Rightarrow> real"
    using Max.set_eq_fold [of "f q" "map f qs"] by simp
  let ?b = "fold extend_bounds qs
              \<lparr>minLat = fst q, maxLat = fst q, minLon = snd q, maxLon = snd q\<rparr>"
  have "?b = \<lparr>minLat = minLat ?b, maxLat = maxLat ?b, minLon = minLon ?b, maxLon = maxLon ?b\<rparr>"
    by simp
  also have "\<dots> = \<lparr>minLat = Min (fst ` set pts), maxLat = Max (fst ` set pts),
           minLon = Min (snd ` set pts), maxLon = Max (snd ` set pts)\<rparr>"
    unfolding pts mn mx by (simp add: fold_extend_bounds)
  finally show ?thesis by (simp add: pts)
qed

lemma FitToRoutes_eq:
  "FitToRoutes rs =
     (if concat (map geometry rs) = [] then None
      else Some \<lparr>fb_points = concat (map geometry rs), fb_padding = (30, 30)\<rparr>)"
  by (cases rs) (simp_all add: FitToRoutes_def Let_def)

text \<open>
  C7. For no route, \<open>fit\<close> gives none, and so it does whenever the routes have no point
  at all (\<open>FitToRoutes\<close> then makes no call, the map stays as it is). When there is a
  point, \<open>FitToRoutes\<close> calls \<^verbatim>\<open>fitBounds\<close> with every point of every route, in order, and
  the padding 30 on both axes; the fitted region is the rectangle from the least to the
  greatest latitude and from the least to the greatest longitude of those points, widened
  by the padding on every side. For a single route with the geometry (0, 0), (1, 1) and
  padding \<open>p\<close> the region goes from \<open>0 - p\<close> to \<open>1 + p\<close> on both axes.
\<close>

theorem fit_bounding_rectangle:
  "fit [] p = None \<and>
   (concat (map geometry rs) = [] \<longrightarrow> FitToRoutes rs = None \<and> fit rs p = None) \<and>
   (concat (map geometry rs) \<noteq> [] \<longrightarrow>
      FitToRoutes rs =
        Some \<lparr>fb_points = concat (map geometry rs), fb_padding = (30, 30)\<rparr> \<and>
      fit rs p =
        Some \<lparr>minLat = Min (fst ` set (concat (map geometry rs))) - p,
              maxLat = Max (fst ` set (concat (map geometry rs))) + p,
              minLon = Min (snd ` set (concat (map geometry rs))) - p,
              maxLon = Max (snd ` set (concat (map geometry rs))) + p\<rparr>) \<and>
   (geometry r = [(0, 0), (1, 1)] \<longrightarrow>
      fit [r] p = Some \<lparr>minLat = 0 - p, maxLat = 1 + p, minLon = 0 - p, maxLon = 1 + p\<rparr>)"
proof (intro conjI impI)
  show "fit [] p = None" by (simp add: fit_def FitToRoutes_def)
next
  assume e: "concat (map geometry rs) = []"
  then show "FitToRoutes rs = None" by (simp add: FitToRoutes_eq)
  then show "fit rs p = None" by (simp add: fit_def)
next
  assume ne: "concat (map geometry rs) \<noteq> []"
  then show call: "FitToRoutes rs =
      Some \<lparr>fb_points = concat (map geometry rs), fb_padding = (30, 30)\<rparr>"
    by (simp add: FitToRoutes_eq)
  show "fit rs p =
      Some \<lparr>minLat = Min (fst ` set (concat (map geometry rs))) - p,
            maxLat = Max (fst ` set (concat (map geometry rs))) + p,
            minLon = Min (snd ` set (concat (map geometry rs))) - p,
            maxLon = Max (snd ` set (concat (map geometry rs))) + p\<rparr>"
    by (simp add: fit_def call fitBounds_def bounding_box_Min_Max [OF ne] expand_def)
next
  assume "geometry r = [(0, 0), (1, 1)]"
  then show "fit [r] p =
      Some \<lparr>minLat = 0 - p, maxLat = 1 + p, minLon = 0 - p, maxLon = 1 + p\<rparr>"
    by (simp add: fit_def FitToRoutes_def fitBounds_def expand_def extend_bounds_def)
qed

text \<open>The routes \<open>r1\<close> and \<open>r2\<close> with padding 10, and \<open>r1\<close> alone.\<close>

theorem fit_bounding_rectangle_witness:
  "concat (map geometry [unit_route, far_route]) \<noteq> [] \<and>
   geometry unit_route = [(0, 0), (1, 1)] \<and>
   fit [unit_route, far_route] 10 =
     Some \<lparr>minLat = - 10, maxLat = 15, minLon = - 13, maxLon = 14\<rparr> \<and>
   fit [unit_route] 10 = Some \<lparr>minLat = - 10, maxLat = 11, minLon = - 10, maxLon = 11\<rparr> \<and>
   FitToRoutes [unit_route] = Some \<lparr>fb_points = [(0, 0), (1, 1)], fb_padding = (30, 30)\<rparr>"
  using fit_bounding_rectangle [of 10 "[unit_route, far_route]" unit_route]
    fit_bounding_rectangle [of 10 "[unit_route]" unit_route]
  by (simp add: unit_route_def far_route_def example_route_def)

text \<open>What the source does is \<open>fit\<close> at the padding 30.\<close>

lemma FitToRoutes_is_fit_30:
  "Option.bind (FitToRoutes rs) fitBounds = fit rs 30"
  by (simp add: fit_def FitToRoutes_eq)

section \<open>Properties of the panels\<close>

text \<open>
  With no selection, or with a selected id that no route has, neither panel is shown.
\<close>

lemma panels_nothing_selected:
  assumes "selectedRouteId s = None \<or> find_selected s = None"
  shows "elevationPanel s = None \<and> elevationSeries s = None \<and> surfacePanel s = None"
  using assms
  by (auto simp add: elevationPanel_def elevationSeries_def surfacePanel_def truthy_def)

text \<open>\<open>toFixed0\<close> gives an integer at distance at most one half.\<close>

lemma toFixed0_nearest: "\<bar>real_of_int (toFixed0 x) - x\<bar> \<le> 1 / 2"
proof -
  have up: "real_of_int \<lfloor>y + 1 / 2\<rfloor> \<le> y + 1 / 2 \<and> y + 1 / 2 < real_of_int \<lfloor>y + 1 / 2\<rfloor> + 1"
    for y :: real
    by linarith
  show ?thesis
  proof (cases "x < 0")
    case True
    then have "toFixed0 x = - \<lfloor>- x + 1 / 2\<rfloor>" by (simp only: toFixed0_def if_True)
    moreover from up [of "- x"]
    have "\<bar>- real_of_int \<lfloor>- x + 1 / 2\<rfloor> - x\<bar> \<le> 1 / 2" by linarith
    ultimately show ?thesis by (simp only: of_int_minus)
  next
    case False
    then have "toFixed0 x = \<lfloor>x + 1 / 2\<rfloor>" by (simp only: toFixed0_def if_False)
    moreover from up [of x]
    have "\<bar>real_of_int \<lfloor>x + 1 / 2\<rfloor> - x\<bar> \<le> 1 / 2" by linarith
    ultimately show ?thesis by (simp only:)
  qed
qed

text \<open>
  With a selected id that is not the empty string and is the id of a route, the chart
  plots the profile of the first such route, sample by sample and in its order, so with
  the distances of the profile (non-decreasing when the profile's are); the surface
  panel shows the ratio of unknown surface times 100, rounded by \<open>toFixed0\<close>.
\<close>

lemma panels_of_selected:
  assumes "selectedRouteId s = Some sid" and "sid \<noteq> []"
    and "find (\<lambda>r. route_id r = sid) (routes s) = Some r"
  shows "elevationSeries s = Some (map (\<lambda>e. (dist_m e, elev_m e)) (elevation_profile r))"
    and "map_option length (elevationSeries s) = Some (length (elevation_profile r))"
    and "map_option (map fst) (elevationSeries s) = Some (map dist_m (elevation_profile r))"
    and "dist_nondecreasing (elevation_profile r) \<Longrightarrow>
           map_option (sorted \<circ> map fst) (elevationSeries s) = Some True"
    and "map_option unknownSurfacePercent (surfacePanel s) =
           Some (toFixed0 (unknown_surface_ratio (osm_summary r) * 100))"
proof -
  from assms have f: "find_selected s = Some r" and t: "truthy (selectedRouteId s)"
    by (simp_all add: find_selected_def truthy_def)
  from f t show e: "elevationSeries s = Some (map (\<lambda>e. (dist_m e, elev_m e)) (elevation_profile r))"
    by (simp add: elevationSeries_def elevationPanel_def)
  from e show "map_option length (elevationSeries s) = Some (length (elevation_profile r))"
    by simp
  from e show m: "map_option (map fst) (elevationSeries s) = Some (map dist_m (elevation_profile r))"
    by (simp add: comp_def)
  from e show "map_option (sorted \<circ> map fst) (elevationSeries s) = Some True"
    if "dist_nondecreasing (elevation_profile r)"
    using that by (simp add: comp_def dist_nondecreasing_def)
  from f t show "map_option unknownSurfacePercent (surfacePanel s) =
           Some (toFixed0 (unknown_surface_ratio (osm_summary r) * 100))"
    by (simp add: surfacePanel_def surface_card_of_def)
qed

lemma panels_percent_near:
  assumes "selectedRouteId s = Some sid" and "sid \<noteq> []"
    and "find (\<lambda>r. route_id r = sid) (routes s) = Some r"
  shows "\<exists>c. surfacePanel s = Some c \<and>
           \<bar>real_of_int (unknownSurfacePercent c) - unknown_surface_ratio (osm_summary r) * 100\<bar>
             \<le> 1 / 2"
proof -
  from assms have "find_selected s = Some r" and "truthy (selectedRouteId s)"
    by (simp_all add: find_selected_def truthy_def)
  then have "surfacePanel s = Some (surface_card_of (osm_summary r))"
    by (simp add: surfacePanel_def)
  with toFixed0_nearest [of "unknown_surface_ratio (osm_summary r) * 100"]
  show ?thesis by (simp add: surface_card_of_def)
qed

text \<open>The panels of the session that shows and selects \<open>r1\<close>.\<close>

lemma panels_example:
  "elevationSeries (fetchRoutes_resume (ok_reply [unit_route]) init) = Some [(0, 10), (120, 14)] \<and>
   map_option unknownSurfacePercent (surfacePanel (fetchRoutes_resume (ok_reply [unit_route]) init)) = Some 13"
  by (simp add: fetchRoutes_resume_def ok_reply_def setRoutes_def setSelectedRouteId_def
        unit_route_def example_route_def find_selected_def elevationPanel_def elevationSeries_def
        surfacePanel_def truthy_def two_samples_def surface_card_of_def paved_osm_def toFixed0_def)

text \<open>
  C8 (the source at the failing input). The backend sends one route whose id is the
  empty string. The route is stored and selected, the route button marks it as selected
  and \<^verbatim>\<open>routes.find\<close> finds it; but the selected id is a falsy string, so neither panel is
  shown: there is no elevation series and no percentage for the selected route.
\<close>

theorem panels_empty_id_hidden:
  "routes (fetchRoutes_resume (ok_reply [unnamed_route]) init) = [unnamed_route] \<and>
   selectedRouteId (fetchRoutes_resume (ok_reply [unnamed_route]) init) = Some [] \<and>
   isSelected unnamed_route (fetchRoutes_resume (ok_reply [unnamed_route]) init) \<and>
   find_selected (fetchRoutes_resume (ok_reply [unnamed_route]) init) = Some unnamed_route \<and>
   elevationPanel (fetchRoutes_resume (ok_reply [unnamed_route]) init) = None \<and>
   elevationSeries (fetchRoutes_resume (ok_reply [unnamed_route]) init) = None \<and>
   surfacePanel (fetchRoutes_resume (ok_reply [unnamed_route]) init) = None"
proof -
  have r: "routes (fetchRoutes_resume (ok_reply [unnamed_route]) init) = [unnamed_route]"
    and s: "selectedRouteId (fetchRoutes_resume (ok_reply [unnamed_route]) init) = Some []"
    by (simp_all add: fetchRoutes_resume_def ok_reply_def setRoutes_def setSelectedRouteId_def
        unnamed_route_def example_route_def)
  have i: "route_id unnamed_route = []" by (simp add: unnamed_route_def example_route_def)
  from r s i show ?thesis
    by (simp add: isSelected_def find_selected_def elevationPanel_def elevationSeries_def
        surfacePanel_def truthy_def)
qed

end
